theory Spec2Isabelle
  imports Complex_Main "HOL-Library.List_Lexorder" "HOL-Library.Sublist"
begin

section \<open>Strings of the source language\<close>

text \<open>
  A JavaScript string is modelled as a \<^typ>\<open>string\<close> whose characters are the code units
  U+0000 to U+00FF (Latin-1). Scores are JavaScript numbers; they are modelled as exact
  reals, so the rounding of the double-precision division and product is not part of the
  model.
\<close>

definition isUpper :: "char \<Rightarrow> bool" where
  "isUpper c =
     (let n = (of_char c :: nat)
      in (65 \<le> n \<and> n \<le> 90) \<or> (192 \<le> n \<and> n \<le> 222 \<and> n \<noteq> 215))"

definition lowerChar :: "char \<Rightarrow> char" where
  "lowerChar c = (if isUpper c then char_of ((of_char c :: nat) + 32) else c)"

text \<open>\<^verbatim>\<open>String.prototype.toLowerCase\<close> on code units below 256.\<close>

definition toLowerCase :: "string \<Rightarrow> string" where
  "toLowerCase s = map lowerChar s"

text \<open>\<^verbatim>\<open>t.startsWith(q)\<close>.\<close>

fun startsWith :: "string \<Rightarrow> string \<Rightarrow> bool" where
  "startsWith t [] = True"
| "startsWith [] (q # qs) = False"
| "startsWith (c # cs) (q # qs) = (c = q \<and> startsWith cs qs)"

text \<open>\<^verbatim>\<open>t.includes(q)\<close>: \<open>q\<close> occurs in \<open>t\<close> as a contiguous substring.\<close>

fun includesStr :: "string \<Rightarrow> string \<Rightarrow> bool" where
  "includesStr [] q = (q = [])"
| "includesStr (c # cs) q = (startsWith (c # cs) q \<or> includesStr cs q)"

text \<open>The characters matched by \<^verbatim>\<open>\s\<close> among the code units below 256.\<close>

definition isSpace :: "char \<Rightarrow> bool" where
  "isSpace c = ((of_char c :: nat) \<in> {9, 10, 11, 12, 13, 32, 160})"

text \<open>
  \<^verbatim>\<open>s.split(/\s+/)\<close>: the pieces between maximal runs of white space. A leading or a
  trailing run leaves an empty first or last piece, and the result is never empty.
  \<open>splitRun inRun cur s\<close> carries the piece being read (reversed) and whether the last
  character read was white space.
\<close>

fun splitRun :: "bool \<Rightarrow> string \<Rightarrow> string \<Rightarrow> string list" where
  "splitRun inRun cur [] = [rev cur]"
| "splitRun inRun cur (c # cs) =
     (if isSpace c
      then (if inRun then splitRun True cur cs else rev cur # splitRun True [] cs)
      else splitRun False (c # cur) cs)"

definition splitWhitespace :: "string \<Rightarrow> string list" where
  "splitWhitespace s = splitRun False [] s"

section \<open>The relevance scorer of the search controller\<close>

text \<open>
  \<^verbatim>\<open>calculateRelevanceScore(query, text)\<close> of \<^verbatim>\<open>src/controllers/search.controller.js\<close>
  (the NAMASTE and ICD-11 controllers carry the same body). \<^verbatim>\<open>!query\<close> holds of the
  empty string.
\<close>

definition matchingWords :: "string list \<Rightarrow> string list \<Rightarrow> string list" where
  "matchingWords queryWords textWords =
     filter (\<lambda>word. list_ex (\<lambda>textWord. includesStr textWord word) textWords) queryWords"

definition wordScore :: "string \<Rightarrow> string \<Rightarrow> real" where
  "wordScore queryLower textLower =
     (let queryWords = splitWhitespace queryLower;
          textWords = splitWhitespace textLower
      in max (3 / 10)
           (real (length (matchingWords queryWords textWords)) / real (length queryWords)
              * (6 / 10)))"

definition calculateRelevanceScore :: "string \<Rightarrow> string \<Rightarrow> real" where
  "calculateRelevanceScore query text =
     (if query = [] \<or> text = [] then 0
      else let queryLower = toLowerCase query; textLower = toLowerCase text
           in if textLower = queryLower then 1
              else if startsWith textLower queryLower then 9 / 10
              else if includesStr textLower queryLower then 7 / 10
              else wordScore queryLower textLower)"

section \<open>The relevance scorer of the NAMASTE service\<close>

text \<open>
  The exceptions of the modelled code. The constructors stand for the thrown messages:
  \<open>CreatorNamasteNotFound c\<close> for \<^verbatim>\<open>NAMASTE code 'c' not found or inactive\<close>,
  \<open>CreatorIcd11NotFound c\<close> for \<^verbatim>\<open>ICD-11 code 'c' not found or inactive\<close>,
  \<open>SourceOrTargetNotFound\<close> for \<^verbatim>\<open>Source or target code not found\<close>,
  \<open>NamasteCodeNotFound\<close> for \<^verbatim>\<open>NAMASTE code not found\<close>,
  \<open>MappingNotFound\<close> for \<^verbatim>\<open>Mapping not found\<close>,
  \<open>SourceCodeNotFound\<close> for \<^verbatim>\<open>Source code not found\<close> and
  \<open>UnsupportedCodeSystem\<close> for \<^verbatim>\<open>Unsupported code system\<close>; the others are the
  exceptions of the platform and of the object-relational mapper.
\<close>

datatype error =
    SyntaxError
  | TypeError
  | CreatorNamasteNotFound string
  | CreatorIcd11NotFound string
  | SourceOrTargetNotFound
  | NamasteCodeNotFound
  | MappingNotFound
  | SourceCodeNotFound
  | UnsupportedCodeSystem
  | SequelizeValidationError
  | SequelizeUniqueConstraintError

text \<open>
  The service's copy builds \<^verbatim>\<open>new RegExp(`\\b${queryLower}\\b`, 'i')\<close> from the query.
  The characters \<^verbatim>\<open>^ $ \ . * + ? ( ) [ ] { } |\<close> (listed below by code) have a meaning of
  their own in a pattern; a query without them is a literal pattern, which matches exactly
  its own text.
\<close>

definition isSyntaxChar :: "char \<Rightarrow> bool" where
  "isSyntaxChar c =
     ((of_char c :: nat) \<in> {94, 36, 92, 46, 42, 43, 63, 40, 41, 91, 93, 123, 125, 124})"

text \<open>The word characters of \<^verbatim>\<open>\b\<close>: letters, digits and the underscore.\<close>

definition isWordChar :: "char \<Rightarrow> bool" where
  "isWordChar c =
     (let n = (of_char c :: nat)
      in (48 \<le> n \<and> n \<le> 57) \<or> (65 \<le> n \<and> n \<le> 90) \<or> n = 95 \<or> (97 \<le> n \<and> n \<le> 122))"

definition isWordOpt :: "char option \<Rightarrow> bool" where
  "isWordOpt c = (case c of None \<Rightarrow> False | Some x \<Rightarrow> isWordChar x)"

text \<open>
  \<^verbatim>\<open>\b\<close> holds between two neighbouring positions when exactly one of them carries a
  word character; the positions before the first and after the last character carry none.
\<close>

definition wordBoundary :: "char option \<Rightarrow> char option \<Rightarrow> bool" where
  "wordBoundary before after = (isWordOpt before \<noteq> isWordOpt after)"

definition headOpt :: "string \<Rightarrow> char option" where
  "headOpt s = (case s of [] \<Rightarrow> None | c # _ \<Rightarrow> Some c)"

text \<open>
  The literal pattern \<open>q\<close> between two \<^verbatim>\<open>\b\<close> matches at the start of \<open>s\<close>, the
  character before \<open>s\<close> being \<open>prev\<close>.
\<close>

definition matchHere :: "char option \<Rightarrow> string \<Rightarrow> string \<Rightarrow> bool" where
  "matchHere prev s q =
     (startsWith s q
      \<and> wordBoundary prev (headOpt s)
      \<and> wordBoundary (if q = [] then prev else Some (last q)) (headOpt (drop (length q) s)))"

fun matchFrom :: "char option \<Rightarrow> string \<Rightarrow> string \<Rightarrow> bool" where
  "matchFrom prev [] q = matchHere prev [] q"
| "matchFrom prev (c # cs) q = (matchHere prev (c # cs) q \<or> matchFrom (Some c) cs q)"

text \<open>
  \<^verbatim>\<open>new RegExp(`\\b${q}\\b`, 'i').test(t)\<close>. The strings of the model hold code units below
  256 only; with the \<^verbatim>\<open>i\<close> flag two such code units match when their lower-case forms are
  equal. (On code units from 256 on the flag identifies more characters than lower-casing
  does; such strings are not values of the model, and nothing below is stated of them.) A
  query with a syntax character is a pattern for the regular-expression engine of the
  platform, which is not part of the repository: \<open>engine q t\<close> stands for its answer,
  \<open>None\<close> when the constructor throws a \<^verbatim>\<open>SyntaxError\<close>.
\<close>

definition wholeWordTest :: "(string \<Rightarrow> string \<Rightarrow> bool option) \<Rightarrow> string \<Rightarrow> string \<Rightarrow> bool option" where
  "wholeWordTest engine q t =
     (if list_ex isSyntaxChar q then engine q t
      else Some (matchFrom None (toLowerCase t) (toLowerCase q)))"

text \<open>An engine that rejects every pattern; the examples below use literal patterns only.\<close>

definition rejectingEngine :: "string \<Rightarrow> string \<Rightarrow> bool option" where
  "rejectingEngine q t = None"

text \<open>
  \<^verbatim>\<open>NamasteService.calculateRelevanceScore(query, text)\<close> of
  \<^verbatim>\<open>src/services/mapping.service.js\<close>.
\<close>

definition NamasteService_calculateRelevanceScore ::
  "(string \<Rightarrow> string \<Rightarrow> bool option) \<Rightarrow> string \<Rightarrow> string \<Rightarrow> error + real" where
  "NamasteService_calculateRelevanceScore engine query text =
     (if query = [] \<or> text = [] then Inr 0
      else let queryLower = toLowerCase query; textLower = toLowerCase text
           in if textLower = queryLower then Inr 1
              else if startsWith textLower queryLower then Inr (9 / 10)
              else (case wholeWordTest engine queryLower textLower of
                      None \<Rightarrow> Inl SyntaxError
                    | Some True \<Rightarrow> Inr (8 / 10)
                    | Some False \<Rightarrow>
                        if includesStr textLower queryLower then Inr (7 / 10)
                        else Inr (wordScore queryLower textLower)))"

section \<open>The confidence helper\<close>

text \<open>
  Modelled from the spec: \<^verbatim>\<open>helpers.calculateMappingConfidence\<close> of
  \<^verbatim>\<open>utils/helpers.js\<close>, which is not among the sources. The spec has the confidence
  engine delegate to the scorer on the two display names, and gives the scorer as: equal
  after lowercasing and trimming, 1.0; else one string a prefix of the other, 0.9; else one
  string a substring of the other, 0.7; else the share of the white-space tokens of the
  first string contained in some token of the second, times 0.6, and at least 0.3; an
  empty input scores 0. The operations below take the helper as their parameter
  \<open>confidence\<close>; this definition instantiates it in the examples.
\<close>

definition trim :: "string \<Rightarrow> string" where
  "trim s = rev (dropWhile isSpace (rev (dropWhile isSpace s)))"

definition calculateMappingConfidence :: "string \<Rightarrow> string \<Rightarrow> real" where
  "calculateMappingConfidence a b =
     (if a = [] \<or> b = [] then 0
      else let x = trim (toLowerCase a); y = trim (toLowerCase b)
           in if x = y then 1
              else if startsWith y x \<or> startsWith x y then 9 / 10
              else if includesStr y x \<or> includesStr x y then 7 / 10
              else wordScore x y)"

section \<open>The store\<close>

text \<open>
  The three tables the operations read and write, as lists of rows in table order.
  \<open>code\<close>, \<open>status\<close> are the columns of \<^verbatim>\<open>namaste_codes\<close>; \<open>icd_code\<close> and
  \<open>icd_status\<close> are the columns \<^verbatim>\<open>code\<close> (which may be null) and \<^verbatim>\<open>status\<close> of the
  ICD-11 table; \<open>mapping_id\<close> and \<open>mapping_notes\<close> are the columns \<^verbatim>\<open>id\<close> and \<^verbatim>\<open>notes\<close> of
  \<^verbatim>\<open>code_mappings\<close>. Columns that no
  modelled operation reads (definitions, synonyms, metadata, row timestamps) are left out.
  The column \<^verbatim>\<open>confidence_score\<close> is \<^verbatim>\<open>DECIMAL(3, 2)\<close>: a row holds its score rounded to two
  decimals.
\<close>

datatype Status = Active | Inactive

datatype SystemType = Ayurveda | Siddha | Unani

datatype MappingType = Equivalent | Broader | Narrower | Related

record NamesteCode =
  code :: string
  display_name :: string
  system_type :: SystemType
  status :: Status

record ICD11Code =
  icd_id :: string
  icd_code :: "string option"
  title :: string
  module :: string
  icd_status :: Status

record CodeMapping =
  mapping_id :: nat
  namaste_code :: string
  icd11_code :: string
  mapping_type :: MappingType
  confidence_score :: real
  verified_by :: "nat option"
  verified_at :: "nat option"
  mapping_notes :: "string option"
  is_active :: bool

record Database =
  namaste_codes :: "NamesteCode list"
  icd11_codes :: "ICD11Code list"
  code_mappings :: "CodeMapping list"
  next_id :: nat

text \<open>
  The conversion of a score to the column type \<^verbatim>\<open>DECIMAL(3, 2)\<close>, as a database that
  enforces the type does it: two decimals, a half rounded away from zero. (The scores that
  reach the column lie between 0 and 1.)
\<close>

definition toDecimal32 :: "real \<Rightarrow> real" where
  "toDecimal32 x = real_of_int \<lfloor>x * 100 + 1 / 2\<rfloor> / 100"

text \<open>
  \<^verbatim>\<open>CodeMapping.create(values)\<close>: the model validates the confidence score against
  \<^verbatim>\<open>min: 0.00, max: 1.00\<close>, the table's unique index on
  \<^verbatim>\<open>(namaste_code, icd11_code)\<close> rejects a second row for a pair, and the new row gets
  the next identifier. The instance handed back carries the values it was built from and
  the identifier; the row of the table carries the score converted to the column type.
\<close>

definition CodeMapping_create :: "CodeMapping \<Rightarrow> Database \<Rightarrow> error + CodeMapping \<times> Database" where
  "CodeMapping_create vals db =
     (if confidence_score vals < 0 \<or> 1 < confidence_score vals then Inl SequelizeValidationError
      else if list_ex (\<lambda>m. namaste_code m = namaste_code vals \<and> icd11_code m = icd11_code vals)
                (code_mappings db)
      then Inl SequelizeUniqueConstraintError
      else let mapping = vals\<lparr>mapping_id := next_id db\<rparr>;
               row = mapping\<lparr>confidence_score := toDecimal32 (confidence_score vals)\<rparr>
           in Inr (mapping, db\<lparr>code_mappings := code_mappings db @ [row],
                                 next_id := Suc (next_id db)\<rparr>))"

text \<open>\<^verbatim>\<open>CodeMapping.findByPk(id)\<close>.\<close>

definition findByPk :: "nat \<Rightarrow> Database \<Rightarrow> CodeMapping option" where
  "findByPk i db = find (\<lambda>m. mapping_id m = i) (code_mappings db)"

text \<open>The three look-ups shared by the creation paths (\<^verbatim>\<open>findOne\<close> with these filters).\<close>

definition findActiveNamaste :: "string \<Rightarrow> Database \<Rightarrow> NamesteCode option" where
  "findActiveNamaste namasteCode db =
     find (\<lambda>n. code n = namasteCode \<and> status n = Active) (namaste_codes db)"

definition findActiveIcd11 :: "string \<Rightarrow> Database \<Rightarrow> ICD11Code option" where
  "findActiveIcd11 icd11Code db =
     find (\<lambda>e. (icd_id e = icd11Code \<or> icd_code e = Some icd11Code) \<and> icd_status e = Active)
       (icd11_codes db)"

definition findActiveMapping :: "string \<Rightarrow> string \<Rightarrow> Database \<Rightarrow> CodeMapping option" where
  "findActiveMapping namasteCode icdId db =
     find (\<lambda>m. namaste_code m = namasteCode \<and> icd11_code m = icdId \<and> is_active m)
       (code_mappings db)"

text \<open>
  \<^verbatim>\<open>confidenceScore || computed\<close>: an absent score and the score 0 are both falsy.
  (\<^verbatim>\<open>NaN\<close> is not a value of the model.)
\<close>

definition orElse :: "real option \<Rightarrow> real \<Rightarrow> real" where
  "orElse given computed =
     (case given of None \<Rightarrow> computed | Some c \<Rightarrow> if c = 0 then computed else c)"

section \<open>The mapping creator (batch path)\<close>

record Stats =
  processed :: nat
  created :: nat
  skipped :: nat
  errors :: nat

definition resetStats :: Stats where
  "resetStats = \<lparr>processed = 0, created = 0, skipped = 0, errors = 0\<rparr>"

text \<open>
  The creator writes the filter of its ICD-11 look-up with \<^verbatim>\<open>sequelize.Op.or\<close>, where
  \<^verbatim>\<open>sequelize\<close> is the connection instance exported by the models module. The operators
  are a property of the package, which the controllers, the services and the routes read
  (\<^verbatim>\<open>const { Op } = require('sequelize')\<close>); the instance has no property \<^verbatim>\<open>Op\<close>. So
  \<^verbatim>\<open>sequelize.Op\<close> is undefined, and reading \<^verbatim>\<open>.or\<close> of it throws a \<^verbatim>\<open>TypeError\<close> while the
  filter is built, before the look-up is made.
\<close>

definition sequelize_Op :: "unit option" where
  "sequelize_Op = None"

text \<open>
  \<^verbatim>\<open>MappingCreator.createMapping\<close>: \<open>createMapping_try\<close> is the body of the \<^verbatim>\<open>try\<close>
  block; \<open>createMapping\<close> adds the \<^verbatim>\<open>catch\<close> (count the error, throw it again) and the
  \<^verbatim>\<open>finally\<close> (count the call).
\<close>

definition createMapping_try ::
  "(string \<Rightarrow> string \<Rightarrow> real) \<Rightarrow> string \<Rightarrow> string \<Rightarrow> MappingType \<Rightarrow> real option \<Rightarrow> string option
     \<Rightarrow> Database \<times> Stats \<Rightarrow> (error + CodeMapping) \<times> Database \<times> Stats" where
  "createMapping_try confidence namasteCode icd11Code mappingType confidenceScore nts st =
     (let db = fst st; stats = snd st
      in case findActiveNamaste namasteCode db of
           None \<Rightarrow> (Inl (CreatorNamasteNotFound namasteCode), db, stats)
         | Some namasteEntity \<Rightarrow>
             (case sequelize_Op of
                None \<Rightarrow> (Inl TypeError, db, stats)
              | Some op \<Rightarrow>
                  (case findActiveIcd11 icd11Code db of
                     None \<Rightarrow> (Inl (CreatorIcd11NotFound icd11Code), db, stats)
                   | Some icd11Entity \<Rightarrow>
                       (case findActiveMapping namasteCode (icd_id icd11Entity) db of
                          Some existingMapping \<Rightarrow>
                            (Inr existingMapping, db, stats\<lparr>skipped := skipped stats + 1\<rparr>)
                        | None \<Rightarrow>
                            (let calculatedConfidence =
                                   orElse confidenceScore
                                     (confidence (display_name namasteEntity) (title icd11Entity))
                             in case CodeMapping_create
                                       \<lparr>mapping_id = 0,
                                        namaste_code = namasteCode,
                                        icd11_code = icd_id icd11Entity,
                                        mapping_type = mappingType,
                                        confidence_score = calculatedConfidence,
                                        verified_by = None,
                                        verified_at = None,
                                        mapping_notes = nts,
                                        is_active = True\<rparr> db of
                                  Inl e \<Rightarrow> (Inl e, db, stats)
                                | Inr (mapping, db') \<Rightarrow>
                                    (Inr mapping, db', stats\<lparr>created := created stats + 1\<rparr>))))))"

definition createMapping ::
  "(string \<Rightarrow> string \<Rightarrow> real) \<Rightarrow> string \<Rightarrow> string \<Rightarrow> MappingType \<Rightarrow> real option \<Rightarrow> string option
     \<Rightarrow> Database \<times> Stats \<Rightarrow> (error + CodeMapping) \<times> Database \<times> Stats" where
  "createMapping confidence namasteCode icd11Code mappingType confidenceScore nts st =
     (case createMapping_try confidence namasteCode icd11Code mappingType confidenceScore nts st of
        (result, db, stats) \<Rightarrow>
          (let caught = (case result of
                           Inl e \<Rightarrow> stats\<lparr>errors := errors stats + 1\<rparr>
                         | Inr m \<Rightarrow> stats)
           in (result, db, caught\<lparr>processed := processed caught + 1\<rparr>)))"

text \<open>
  \<^verbatim>\<open>createMappingsFromArray\<close>: one \<open>createMapping\<close> per item, a failing item is passed
  over. An item's absent \<^verbatim>\<open>mapping_type\<close> becomes \<^verbatim>\<open>'equivalent'\<close>.
\<close>

record MappingItem =
  item_namaste_code :: string
  item_icd11_code :: string
  item_mapping_type :: "MappingType option"
  item_confidence_score :: "real option"
  item_notes :: "string option"

definition createMappingsFromArray ::
  "(string \<Rightarrow> string \<Rightarrow> real) \<Rightarrow> MappingItem list \<Rightarrow> Database \<times> Stats \<Rightarrow> Database \<times> Stats" where
  "createMappingsFromArray confidence mappings st =
     foldl (\<lambda>s mapping.
              snd (createMapping confidence (item_namaste_code mapping) (item_icd11_code mapping)
                     (case item_mapping_type mapping of None \<Rightarrow> Equivalent | Some t \<Rightarrow> t)
                     (item_confidence_score mapping) (item_notes mapping) s))
       (fst st, resetStats) mappings"








text \<open>
  \<^verbatim>\<open>MappingCreator.validateMappings\<close>. The two associations of a mapping are the rows
  joined on \<^verbatim>\<open>namaste_code = code\<close> and on \<^verbatim>\<open>icd11_code = icd_id\<close>, whatever their status.
  An issue carries the mapping's identifier: \<open>NamasteIssue\<close> is
  \<^verbatim>\<open>NAMASTE code not found or inactive\<close>, \<open>Icd11Issue\<close> is
  \<^verbatim>\<open>ICD-11 code not found or inactive\<close>, \<open>ConfidenceIssue\<close> is
  \<^verbatim>\<open>Confidence score significantly different\<close> with the stored and the recomputed score.
  The operation only reads; it hands the store back as it got it.
\<close>

definition namasteCodeDetails :: "Database \<Rightarrow> CodeMapping \<Rightarrow> NamesteCode option" where
  "namasteCodeDetails db mapping = find (\<lambda>n. code n = namaste_code mapping) (namaste_codes db)"

definition icd11CodeDetails :: "Database \<Rightarrow> CodeMapping \<Rightarrow> ICD11Code option" where
  "icd11CodeDetails db mapping = find (\<lambda>e. icd_id e = icd11_code mapping) (icd11_codes db)"

datatype Issue =
    NamasteIssue nat string
  | Icd11Issue nat string
  | ConfidenceIssue nat real real

record ValidationReport =
  valid :: nat
  invalid :: nat
  issues :: "Issue list"

definition validateStep ::
  "(string \<Rightarrow> string \<Rightarrow> real) \<Rightarrow> Database \<Rightarrow> ValidationReport \<Rightarrow> CodeMapping \<Rightarrow> ValidationReport" where
  "validateStep confidence db report mapping =
     (case namasteCodeDetails db mapping of
        None \<Rightarrow>
          report\<lparr>invalid := invalid report + 1,
                  issues := issues report @ [NamasteIssue (mapping_id mapping) (namaste_code mapping)]\<rparr>
      | Some n \<Rightarrow>
          if status n \<noteq> Active
          then report\<lparr>invalid := invalid report + 1,
                       issues := issues report @ [NamasteIssue (mapping_id mapping) (namaste_code mapping)]\<rparr>
          else (case icd11CodeDetails db mapping of
                  None \<Rightarrow>
                    report\<lparr>invalid := invalid report + 1,
                            issues := issues report @ [Icd11Issue (mapping_id mapping) (icd11_code mapping)]\<rparr>
                | Some e \<Rightarrow>
                    if icd_status e \<noteq> Active
                    then report\<lparr>invalid := invalid report + 1,
                                 issues := issues report @ [Icd11Issue (mapping_id mapping) (icd11_code mapping)]\<rparr>
                    else (let recalculatedScore = confidence (display_name n) (title e);
                              noted =
                                (if \<bar>recalculatedScore - confidence_score mapping\<bar> > 3 / 10
                                 then report\<lparr>issues := issues report
                                        @ [ConfidenceIssue (mapping_id mapping) (confidence_score mapping)
                                             recalculatedScore]\<rparr>
                                 else report)
                          in noted\<lparr>valid := valid noted + 1\<rparr>)))"

definition validateMappings ::
  "(string \<Rightarrow> string \<Rightarrow> real) \<Rightarrow> Database \<Rightarrow> ValidationReport \<times> Database" where
  "validateMappings confidence db =
     (let mappings = filter is_active (code_mappings db)
      in (foldl (validateStep confidence db) \<lparr>valid = 0, invalid = 0, issues = []\<rparr> mappings, db))"

section \<open>The mapping controller (interactive path)\<close>

text \<open>
  \<^verbatim>\<open>MappingController.createMapping(req, res, next)\<close>. The request carries the body
  fields (\<open>None\<close> for an absent one) and the authenticated user; \<open>now\<close> is the clock. The
  response is the status and message, the created mapping as read back by its identifier,
  or the error passed to \<^verbatim>\<open>next\<close>. The audit record written after the creation goes to a
  table of its own and is not modelled.
\<close>

record CreateMappingRequest =
  body_namaste_code :: "string option"
  body_icd11_code :: "string option"
  body_mapping_type :: "MappingType option"
  body_confidence_score :: "real option"
  body_notes :: "string option"
  user_id :: nat

datatype Response =
    BadRequest_400 string
  | Conflict_409 string
  | Created_201 "CodeMapping option"
  | NextError error

definition falsyString :: "string option \<Rightarrow> bool" where
  "falsyString s = (case s of None \<Rightarrow> True | Some x \<Rightarrow> x = [])"

definition MappingController_createMapping ::
  "(string \<Rightarrow> string \<Rightarrow> real) \<Rightarrow> nat \<Rightarrow> CreateMappingRequest \<Rightarrow> Database \<Rightarrow> Response \<times> Database" where
  "MappingController_createMapping confidence now req db =
     (if falsyString (body_namaste_code req) \<or> falsyString (body_icd11_code req)
      then (BadRequest_400 ''namaste_code and icd11_code are required'', db)
      else let namasteCode = the (body_namaste_code req); icd11Code = the (body_icd11_code req)
           in case findActiveNamaste namasteCode db of
                None \<Rightarrow> (BadRequest_400 ''NAMASTE code not found or inactive'', db)
              | Some namasteExists \<Rightarrow>
                  (case findActiveIcd11 icd11Code db of
                     None \<Rightarrow> (BadRequest_400 ''ICD-11 code not found or inactive'', db)
                   | Some icd11Exists \<Rightarrow>
                       (case findActiveMapping namasteCode (icd_id icd11Exists) db of
                          Some existingMapping \<Rightarrow>
                            (Conflict_409 ''Mapping already exists between these codes'', db)
                        | None \<Rightarrow>
                            (let calculatedConfidence =
                                   orElse (body_confidence_score req)
                                     (confidence (display_name namasteExists) (title icd11Exists))
                             in case CodeMapping_create
                                       \<lparr>mapping_id = 0,
                                        namaste_code = namasteCode,
                                        icd11_code = icd_id icd11Exists,
                                        mapping_type =
                                          (case body_mapping_type req of
                                             None \<Rightarrow> Equivalent | Some t \<Rightarrow> t),
                                        confidence_score = calculatedConfidence,
                                        verified_by = Some (user_id req),
                                        verified_at = Some now,
                                        mapping_notes = body_notes req,
                                        is_active = True\<rparr> db of
                                  Inl e \<Rightarrow> (NextError e, db)
                                | Inr (mapping, db') \<Rightarrow>
                                    (Created_201 (findByPk (mapping_id mapping) db'), db')))))"

section \<open>The mapping service\<close>

text \<open>
  \<^verbatim>\<open>MappingService.createMapping\<close>: this path takes no confidence score and does not look
  for an existing mapping. \<^verbatim>\<open>userId ? new Date() : null\<close> leaves the date out for an absent
  user and for the user 0.
\<close>

definition MappingService_createMapping ::
  "(string \<Rightarrow> string \<Rightarrow> real) \<Rightarrow> nat \<Rightarrow> string \<Rightarrow> string \<Rightarrow> MappingType \<Rightarrow> nat option \<Rightarrow> Database
     \<Rightarrow> (error + CodeMapping) \<times> Database" where
  "MappingService_createMapping confidence now namasteCode icd11Code mappingType userId db =
     (case (findActiveNamaste namasteCode db, findActiveIcd11 icd11Code db) of
        (Some namaste, Some icd11) \<Rightarrow>
          (case CodeMapping_create
                  \<lparr>mapping_id = 0,
                   namaste_code = namasteCode,
                   icd11_code = icd_id icd11,
                   mapping_type = mappingType,
                   confidence_score = confidence (display_name namaste) (title icd11),
                   verified_by = userId,
                   verified_at =
                     (case userId of
                        None \<Rightarrow> None
                      | Some u \<Rightarrow> if u = 0 then None else Some now),
                   mapping_notes = None,
                   is_active = True\<rparr> db of
             Inl e \<Rightarrow> (Inl e, db)
           | Inr (mapping, db') \<Rightarrow> (Inr mapping, db'))
      | _ \<Rightarrow> (Inl SourceOrTargetNotFound, db))"

text \<open>
  \<^verbatim>\<open>suggestMappingType\<close>; \<open>wordCount s\<close> is \<^verbatim>\<open>s.split(' ').length\<close>, one more than the
  number of spaces.
\<close>

definition wordCount :: "string \<Rightarrow> nat" where
  "wordCount s = length (filter (\<lambda>c. c = CHR '' '') s) + 1"

definition suggestMappingType :: "string \<Rightarrow> string \<Rightarrow> MappingType" where
  "suggestMappingType sourceDisplay targetDisplay =
     (let source = toLowerCase sourceDisplay; target = toLowerCase targetDisplay
      in if source = target \<or> includesStr source target \<or> includesStr target source then Equivalent
         else if wordCount source > wordCount target then Narrower
         else if wordCount target > wordCount source then Broader
         else Related)"

text \<open>
  \<^verbatim>\<open>MappingService.findSuggestedMappings(namasteCode, limit)\<close>. The query on the ICD-11
  table is a filter, \<^verbatim>\<open>ORDER BY title ASC\<close> and \<^verbatim>\<open>LIMIT\<close>. The comparison of the database
  is not part of the repository: \<open>like pattern value\<close> stands for its \<^verbatim>\<open>LIKE\<close> and
  \<open>collate\<close> maps a title to its sort key under the collation of the column. A limit is a
  natural number.
\<close>

record MappingSuggestion =
  sugg_icd11_code :: string
  icd11_title :: string
  sugg_confidence_score :: real
  suggested_mapping_type :: MappingType

definition searchTerms :: "string \<Rightarrow> string list" where
  "searchTerms displayName =
     filter (\<lambda>term. length term > 2) (splitWhitespace (toLowerCase displayName))"

definition findSuggestedMappings ::
  "(string \<Rightarrow> string \<Rightarrow> real) \<Rightarrow> (string \<Rightarrow> string \<Rightarrow> bool) \<Rightarrow> (string \<Rightarrow> 'k :: linorder)
     \<Rightarrow> string \<Rightarrow> nat \<Rightarrow> Database \<Rightarrow> error + MappingSuggestion list" where
  "findSuggestedMappings confidence like collate namasteCode limit db =
     (case findActiveNamaste namasteCode db of
        None \<Rightarrow> Inl NamasteCodeNotFound
      | Some namasteEntity \<Rightarrow>
          (let suggestions =
                 take limit
                   (sort_key (\<lambda>e. collate (title e))
                      (filter (\<lambda>e. list_ex (\<lambda>term. like (''%'' @ term @ ''%'') (title e))
                                      (searchTerms (display_name namasteEntity))
                                  \<and> module e = ''tm2'' \<and> icd_status e = Active)
                         (icd11_codes db)))
           in Inr (map (\<lambda>suggestion.
                          \<lparr>sugg_icd11_code = icd_id suggestion,
                           icd11_title = title suggestion,
                           sugg_confidence_score =
                             confidence (display_name namasteEntity) (title suggestion),
                           suggested_mapping_type =
                             suggestMappingType (display_name namasteEntity) (title suggestion)\<rparr>)
                     suggestions)))"

text \<open>
  \<^verbatim>\<open>MappingService.validateMapping(mappingId)\<close>, the single-record form. It reads the
  mapping by its identifier, active or not, and only reads.
\<close>

record Validation =
  val_mapping_id :: nat
  is_valid :: bool
  val_confidence_score :: real
  val_issues :: "string list"

definition validateMapping ::
  "(string \<Rightarrow> string \<Rightarrow> real) \<Rightarrow> nat \<Rightarrow> Database \<Rightarrow> (error + Validation) \<times> Database" where
  "validateMapping confidence mappingId db =
     (case find (\<lambda>m. mapping_id m = mappingId) (code_mappings db) of
        None \<Rightarrow> (Inl MappingNotFound, db)
      | Some mapping \<Rightarrow>
          (let nd = namasteCodeDetails db mapping;
               ed = icd11CodeDetails db mapping;
               v0 = \<lparr>val_mapping_id = mappingId, is_valid = True,
                     val_confidence_score = confidence_score mapping, val_issues = []\<rparr>;
               v1 = (if (case nd of None \<Rightarrow> True | Some n \<Rightarrow> status n \<noteq> Active)
                     then v0\<lparr>is_valid := False,
                              val_issues := val_issues v0 @ [''NAMASTE code is inactive or not found'']\<rparr>
                     else v0);
               v2 = (if (case ed of None \<Rightarrow> True | Some e \<Rightarrow> icd_status e \<noteq> Active)
                     then v1\<lparr>is_valid := False,
                              val_issues := val_issues v1 @ [''ICD-11 code is inactive or not found'']\<rparr>
                     else v1);
               recalculatedConfidence =
                 confidence (case nd of None \<Rightarrow> [] | Some n \<Rightarrow> display_name n)
                   (case ed of None \<Rightarrow> [] | Some e \<Rightarrow> title e)
           in (Inr (if \<bar>recalculatedConfidence - confidence_score mapping\<bar> > 3 / 10
                    then v2\<lparr>val_issues := val_issues v2 @ [''Confidence score may need recalculation'']\<rparr>
                    else v2),
               db)))"

section \<open>The FHIR service\<close>

text \<open>
  \<^verbatim>\<open>FhirService.translateCode(system, code, targetSystem)\<close>. Reading the title or the
  display name of a mapping whose joined row is missing throws a \<^verbatim>\<open>TypeError\<close>.
\<close>

record TranslateMatch =
  equivalence :: MappingType
  concept_system :: string
  concept_code :: string
  concept_display :: string

definition systemTypeName :: "SystemType \<Rightarrow> string" where
  "systemTypeName t = (case t of Ayurveda \<Rightarrow> ''ayurveda'' | Siddha \<Rightarrow> ''siddha'' | Unani \<Rightarrow> ''unani'')"

fun mapResult :: "('a \<Rightarrow> error + 'b) \<Rightarrow> 'a list \<Rightarrow> error + 'b list" where
  "mapResult f [] = Inr []"
| "mapResult f (x # xs) =
     (case f x of
        Inl e \<Rightarrow> Inl e
      | Inr y \<Rightarrow> (case mapResult f xs of Inl e \<Rightarrow> Inl e | Inr ys \<Rightarrow> Inr (y # ys)))"

definition translateCode :: "string \<Rightarrow> string \<Rightarrow> string option \<Rightarrow> Database \<Rightarrow> error + TranslateMatch list" where
  "translateCode system cd targetSystem db =
     (if includesStr system ''namaste'' then
        (case find (\<lambda>n. code n = cd \<and> status n = Active) (namaste_codes db) of
           None \<Rightarrow> Inl SourceCodeNotFound
         | Some sourceCode \<Rightarrow>
             mapResult
               (\<lambda>mapping.
                  case icd11CodeDetails db mapping of
                    None \<Rightarrow> Inl TypeError
                  | Some e \<Rightarrow>
                      Inr \<lparr>equivalence = mapping_type mapping,
                           concept_system = ''http://id.who.int/icd/entity'',
                           concept_code = icd11_code mapping,
                           concept_display = title e\<rparr>)
               (filter (\<lambda>m. namaste_code m = cd \<and> is_active m) (code_mappings db)))
      else if includesStr system ''icd'' then
        (case find (\<lambda>e. icd_id e = cd \<and> icd_status e = Active) (icd11_codes db) of
           None \<Rightarrow> Inl SourceCodeNotFound
         | Some targetCode \<Rightarrow>
             mapResult
               (\<lambda>mapping.
                  case namasteCodeDetails db mapping of
                    None \<Rightarrow> Inl TypeError
                  | Some n \<Rightarrow>
                      Inr \<lparr>equivalence = mapping_type mapping,
                           concept_system =
                             ''http://terminology.hl7.org/CodeSystem/namaste-''
                               @ systemTypeName (system_type n),
                           concept_code = namaste_code mapping,
                           concept_display = display_name n\<rparr>)
               (filter (\<lambda>m. icd11_code m = cd \<and> is_active m) (code_mappings db)))
      else Inl UnsupportedCodeSystem)"

section \<open>A store for the examples\<close>

text \<open>
  The examples run on a database that compares strings code unit by code unit: \<open>sqlLike\<close>
  is \<^verbatim>\<open>LIKE\<close> with the wildcards \<^verbatim>\<open>%\<close> and \<^verbatim>\<open>_\<close>, \<open>binaryCollation\<close> orders titles by their
  code units, and \<open>twoDecimals\<close> renders the scores the examples meet as
  \<^verbatim>\<open>toFixed(2)\<close> does.
\<close>

fun sqlLike :: "string \<Rightarrow> string \<Rightarrow> bool" where
  "sqlLike [] v = (v = [])"
| "sqlLike (p # ps) [] = (p = CHR ''%'' \<and> sqlLike ps [])"
| "sqlLike (p # ps) (c # cs) =
     (if p = CHR ''%'' then sqlLike ps (c # cs) \<or> sqlLike (p # ps) cs
      else (p = CHR ''_'' \<or> p = c) \<and> sqlLike ps cs)"

definition binaryCollation :: "string \<Rightarrow> nat list" where
  "binaryCollation s = map of_char s"


definition exampleDb :: Database where
  "exampleDb =
     \<lparr>namaste_codes =
        [\<lparr>code = ''NAM001'', display_name = ''Vata Prakopa'', system_type = Ayurveda, status = Active\<rparr>,
         \<lparr>code = ''NAM002'', display_name = ''Pitta'', system_type = Ayurveda, status = Active\<rparr>,
         \<lparr>code = ''SID001'', display_name = ''Vatham'', system_type = Siddha, status = Inactive\<rparr>],
      icd11_codes =
        [\<lparr>icd_id = ''1435254666'', icd_code = Some ''SP70'', title = ''vata prakopa'', module = ''tm2'',
          icd_status = Active\<rparr>,
         \<lparr>icd_id = ''1435254667'', icd_code = None, title = ''abnormal vata'', module = ''tm2'',
          icd_status = Active\<rparr>,
         \<lparr>icd_id = ''1435254668'', icd_code = None, title = ''kapha'', module = ''tm2'',
          icd_status = Inactive\<rparr>],
      code_mappings = [],
      next_id = 1\<rparr>"

text \<open>
  \<open>mappedDb\<close> adds two active mappings: the first joins two active rows, the second
  points at the inactive ICD-11 row.
\<close>

definition mappedDb :: Database where
  "mappedDb =
     exampleDb\<lparr>code_mappings :=
        [\<lparr>mapping_id = 1, namaste_code = ''NAM001'', icd11_code = ''1435254666'',
          mapping_type = Equivalent, confidence_score = 1, verified_by = None, verified_at = None,
          mapping_notes = None, is_active = True\<rparr>,
         \<lparr>mapping_id = 2, namaste_code = ''NAM002'', icd11_code = ''1435254668'',
          mapping_type = Related, confidence_score = 3 / 10, verified_by = None, verified_at = None,
          mapping_notes = None, is_active = True\<rparr>],
        next_id := 3\<rparr>"

section \<open>Predicates of the claims\<close>

text \<open>
  A mapping's reference is broken when the row joined on its source code, or the row
  joined on its target identifier, is missing or not active.
\<close>

definition referenceBroken :: "Database \<Rightarrow> CodeMapping \<Rightarrow> bool" where
  "referenceBroken db m =
     ((case namasteCodeDetails db m of None \<Rightarrow> True | Some n \<Rightarrow> status n \<noteq> Active)
      \<or> (case icd11CodeDetails db m of None \<Rightarrow> True | Some e \<Rightarrow> icd_status e \<noteq> Active))"

text \<open>The issue recorded for a mapping with a broken reference names the mapping.\<close>

definition referenceIssue :: "CodeMapping \<Rightarrow> Issue \<Rightarrow> bool" where
  "referenceIssue m i =
     (i = NamasteIssue (mapping_id m) (namaste_code m) \<or> i = Icd11Issue (mapping_id m) (icd11_code m))"


section \<open>Properties of the scorer\<close>

lemma length_matchingWords: "length (matchingWords qs ts) \<le> length qs"
  by (simp add: matchingWords_def)

lemma splitRun_nonempty: "splitRun inRun cur s \<noteq> []"
  by (induction s arbitrary: inRun cur) auto

lemma splitWhitespace_nonempty: "splitWhitespace s \<noteq> []"
  by (simp add: splitWhitespace_def splitRun_nonempty)

lemma wordScore_lower: "3 / 10 \<le> wordScore q t"
  by (simp add: wordScore_def Let_def)

lemma wordScore_upper: "wordScore q t \<le> 6 / 10"
proof -
  let ?n = "length (splitWhitespace q)"
  let ?m = "length (matchingWords (splitWhitespace q) (splitWhitespace t))"
  have "?m \<le> ?n" by (rule length_matchingWords)
  moreover have "0 < ?n" using splitWhitespace_nonempty [of q] by simp
  ultimately have "real ?m / real ?n \<le> 1" by simp
  then have "real ?m / real ?n * (6 / 10) \<le> 6 / 10" by simp
  then show ?thesis by (simp add: wordScore_def Let_def)
qed


lemma startsWith_iff: "startsWith t q \<longleftrightarrow> (\<exists>zs. t = q @ zs)"
  by (induction t q rule: startsWith.induct) auto

lemma startsWith_refl: "startsWith t t"
  by (simp add: startsWith_iff)

lemma includesStr_iff: "includesStr t q \<longleftrightarrow> (\<exists>xs ys. t = xs @ q @ ys)"
proof (induction t)
  case Nil
  then show ?case by auto
next
  case (Cons c cs)
  show ?case
  proof
    assume "includesStr (c # cs) q"
    then consider "startsWith (c # cs) q" | "includesStr cs q" by auto
    then show "\<exists>xs ys. c # cs = xs @ q @ ys"
    proof cases
      case 1
      then obtain zs where "c # cs = q @ zs" by (auto simp: startsWith_iff)
      then have "c # cs = [] @ q @ zs" by simp
      then show ?thesis by blast
    next
      case 2
      then obtain xs ys where "cs = xs @ q @ ys" using Cons.IH by blast
      then have "c # cs = (c # xs) @ q @ ys" by simp
      then show ?thesis by blast
    qed
  next
    assume "\<exists>xs ys. c # cs = xs @ q @ ys"
    then obtain xs ys where e: "c # cs = xs @ q @ ys" by blast
    show "includesStr (c # cs) q"
    proof (cases xs)
      case Nil
      with e have "startsWith (c # cs) q" by (auto simp: startsWith_iff)
      then show ?thesis by simp
    next
      case (Cons x xs')
      with e have "cs = xs' @ q @ ys" by simp
      then have "includesStr cs q" using Cons.IH by blast
      then show ?thesis by simp
    qed
  qed
qed

lemma startsWith_Nil: "startsWith [] q \<longleftrightarrow> q = []"
  by (cases q) auto

lemma matchingWords_sublists:
  "matchingWords qs ts = filter (\<lambda>w. \<exists>t \<in> set ts. \<exists>xs ys. t = xs @ w @ ys) qs"
  by (simp add: matchingWords_def list_ex_iff includesStr_iff)

section \<open>The claims about the scorer\<close>

text \<open>
  Claim C2, as amended. The scorer of the search controller returns 0 when either string
  is empty. For two non-empty strings \<open>a\<close> (the query) and \<open>b\<close> (the text) it returns
  1.0 when they are equal after lowercasing; otherwise 0.9 when the lowercased \<open>a\<close> is a
  prefix of the lowercased \<open>b\<close>; otherwise 0.7 when the lowercased \<open>a\<close> occurs in the
  lowercased \<open>b\<close>; otherwise the larger of 0.3 and 0.6 times the share of the white-space
  tokens of \<open>a\<close> that occur inside some white-space token of \<open>b\<close>. The prefix and
  substring tiers look for \<open>a\<close> in \<open>b\<close> only, not for \<open>b\<close> in \<open>a\<close>.
\<close>

theorem relevance_score_tiers:
  "(a = [] \<or> b = [] \<longrightarrow> calculateRelevanceScore a b = 0)
   \<and> (a \<noteq> [] \<and> b \<noteq> [] \<longrightarrow>
        calculateRelevanceScore a b =
          (if toLowerCase a = toLowerCase b then 1
           else if (\<exists>zs. toLowerCase b = toLowerCase a @ zs) then 9 / 10
           else if (\<exists>xs ys. toLowerCase b = xs @ toLowerCase a @ ys) then 7 / 10
           else max (3 / 10)
                  (real (length (filter (\<lambda>w. \<exists>t \<in> set (splitWhitespace (toLowerCase b)).
                                           \<exists>xs ys. t = xs @ w @ ys)
                                   (splitWhitespace (toLowerCase a))))
                     / real (length (splitWhitespace (toLowerCase a))) * (6 / 10))))"
proof -
  have empty: "calculateRelevanceScore a b = 0" if "a = [] \<or> b = []"
    using that by (auto simp: calculateRelevanceScore_def)
  have raw: "calculateRelevanceScore a b =
     (if toLowerCase b = toLowerCase a then 1
      else if startsWith (toLowerCase b) (toLowerCase a) then 9 / 10
      else if includesStr (toLowerCase b) (toLowerCase a) then 7 / 10
      else wordScore (toLowerCase a) (toLowerCase b))"
    if "a \<noteq> []" "b \<noteq> []"
    using that by (simp add: calculateRelevanceScore_def Let_def)
  have sym: "(toLowerCase b = toLowerCase a) = (toLowerCase a = toLowerCase b)"
    by auto
  have tiers: "calculateRelevanceScore a b =
          (if toLowerCase a = toLowerCase b then 1
           else if (\<exists>zs. toLowerCase b = toLowerCase a @ zs) then 9 / 10
           else if (\<exists>xs ys. toLowerCase b = xs @ toLowerCase a @ ys) then 7 / 10
           else max (3 / 10)
                  (real (length (filter (\<lambda>w. \<exists>t \<in> set (splitWhitespace (toLowerCase b)).
                                           \<exists>xs ys. t = xs @ w @ ys)
                                   (splitWhitespace (toLowerCase a))))
                     / real (length (splitWhitespace (toLowerCase a))) * (6 / 10)))"
    if "a \<noteq> []" "b \<noteq> []"
    using raw [OF that] sym
    by (simp only: startsWith_iff includesStr_iff wordScore_def Let_def matchingWords_sublists)
  from empty tiers show ?thesis by blast
qed

theorem relevance_score_tiers_witness:
  "calculateRelevanceScore [] ''vata prakopa'' = 0
   \<and> ''Vata'' \<noteq> [] \<and> ''vata prakopa'' \<noteq> []
   \<and> calculateRelevanceScore ''Vata'' ''vata prakopa'' = 9 / 10"
proof -
  have "toLowerCase ''vata prakopa'' = toLowerCase ''Vata'' @ '' prakopa''" by code_simp
  then have p: "\<exists>zs. toLowerCase ''vata prakopa'' = toLowerCase ''Vata'' @ zs" by blast
  have n: "toLowerCase ''Vata'' \<noteq> toLowerCase ''vata prakopa''" by code_simp
  show ?thesis
    using relevance_score_tiers [of "[]" "''vata prakopa''"]
      relevance_score_tiers [of "''Vata''" "''vata prakopa''"] p n
    by simp
qed

text \<open>
  The claim as stated gives 0.9 to a pair in which either string is a prefix of the
  other. The text \<^verbatim>\<open>ab\<close> is a prefix of the query \<^verbatim>\<open>abc\<close>, the two differ, and the
  scorer returns 0.3.
\<close>

theorem relevance_score_tiers_counterexample:
  "toLowerCase ''abc'' \<noteq> toLowerCase ''ab''
   \<and> startsWith (toLowerCase ''abc'') (toLowerCase ''ab'')
   \<and> calculateRelevanceScore ''abc'' ''ab'' = 3 / 10
   \<and> calculateRelevanceScore ''abc'' ''ab'' \<noteq> 9 / 10"
  by code_simp

text \<open>
  Claim C8. For two non-empty strings the score lies between 0.3 and 1.0, and a score
  below 0.3 occurs only when one of the strings is empty.
\<close>

theorem relevance_score_bounds:
  "(a \<noteq> [] \<and> b \<noteq> [] \<longrightarrow>
      3 / 10 \<le> calculateRelevanceScore a b \<and> calculateRelevanceScore a b \<le> 1)
   \<and> (calculateRelevanceScore a b < 3 / 10 \<longrightarrow> a = [] \<or> b = [])"
proof -
  have "3 / 10 \<le> calculateRelevanceScore a b \<and> calculateRelevanceScore a b \<le> 1"
    if "a \<noteq> []" and "b \<noteq> []"
    using that wordScore_lower [of "toLowerCase a" "toLowerCase b"]
      wordScore_upper [of "toLowerCase a" "toLowerCase b"]
    by (simp add: calculateRelevanceScore_def Let_def)
  then show ?thesis by fastforce
qed

theorem relevance_score_bounds_witness:
  "(''vata'' \<noteq> [] \<and> ''pitta dosha'' \<noteq> []
      \<and> 3 / 10 \<le> calculateRelevanceScore ''vata'' ''pitta dosha''
      \<and> calculateRelevanceScore ''vata'' ''pitta dosha'' \<le> 1)
   \<and> (calculateRelevanceScore [] ''pitta dosha'' < 3 / 10 \<and> ([] = ([] :: string) \<or> ''pitta dosha'' = []))"
proof -
  have "calculateRelevanceScore [] ''pitta dosha'' < 3 / 10" by code_simp
  then show ?thesis
    using relevance_score_bounds [of "''vata''" "''pitta dosha''"]
      relevance_score_bounds [of "[]" "''pitta dosha''"]
    by simp
qed

text \<open>
  Claim C9. The scorer is not symmetric: there are strings \<open>x\<close> and \<open>y\<close> whose score
  changes when they are exchanged.
\<close>

theorem relevance_score_not_symmetric:
  "\<exists>x y. calculateRelevanceScore x y \<noteq> calculateRelevanceScore y x"
proof -
  have "calculateRelevanceScore ''vata'' ''vata prakopa'' \<noteq>
        calculateRelevanceScore ''vata prakopa'' ''vata''"
    by code_simp
  then show ?thesis by blast
qed


text \<open>
  Claim C10, as amended. The scorer of the NAMASTE service and the scorer of the search
  controller return the same score whenever the query is empty, the text is empty, the
  lowercased query is a prefix of the lowercased text, or the service's whole-word
  pattern does not match the lowercased text. When the pattern matches and the query is
  not a prefix, the service returns 0.8.
\<close>

theorem service_scorer_differs_only_by_whole_word_tier:
  "(query = [] \<or> text = [] \<or> startsWith (toLowerCase text) (toLowerCase query)
      \<or> wholeWordTest engine (toLowerCase query) (toLowerCase text) = Some False
     \<longrightarrow> NamasteService_calculateRelevanceScore engine query text
           = Inr (calculateRelevanceScore query text))
   \<and> (query \<noteq> [] \<and> text \<noteq> [] \<and> \<not> startsWith (toLowerCase text) (toLowerCase query)
      \<and> wholeWordTest engine (toLowerCase query) (toLowerCase text) = Some True
     \<longrightarrow> NamasteService_calculateRelevanceScore engine query text = Inr (8 / 10))"
proof -
  let ?q = "toLowerCase query" and ?t = "toLowerCase text"
  have eq: "startsWith ?t ?q" if "?t = ?q"
    using that by (simp add: startsWith_refl)
  have first: "NamasteService_calculateRelevanceScore engine query text
                 = Inr (calculateRelevanceScore query text)"
    if "query = [] \<or> text = [] \<or> startsWith ?t ?q \<or> wholeWordTest engine ?q ?t = Some False"
    using that
    by (auto simp: NamasteService_calculateRelevanceScore_def calculateRelevanceScore_def Let_def)
  have second: "NamasteService_calculateRelevanceScore engine query text = Inr (8 / 10)"
    if "query \<noteq> []" "text \<noteq> []" "\<not> startsWith ?t ?q" "wholeWordTest engine ?q ?t = Some True"
    using that eq
    by (auto simp: NamasteService_calculateRelevanceScore_def Let_def)
  from first second show ?thesis by blast
qed

theorem service_scorer_differs_only_by_whole_word_tier_witness:
  "wholeWordTest rejectingEngine (toLowerCase ''vata'') (toLowerCase ''pitta dosha'') = Some False
   \<and> NamasteService_calculateRelevanceScore rejectingEngine ''vata'' ''pitta dosha''
       = Inr (calculateRelevanceScore ''vata'' ''pitta dosha'')
   \<and> ''vata'' \<noteq> [] \<and> ''abnormal vata'' \<noteq> []
   \<and> \<not> startsWith (toLowerCase ''abnormal vata'') (toLowerCase ''vata'')
   \<and> wholeWordTest rejectingEngine (toLowerCase ''vata'') (toLowerCase ''abnormal vata'') = Some True
   \<and> NamasteService_calculateRelevanceScore rejectingEngine ''vata'' ''abnormal vata'' = Inr (8 / 10)"
proof -
  have a: "wholeWordTest rejectingEngine (toLowerCase ''vata'') (toLowerCase ''pitta dosha'') = Some False"
    by code_simp
  have b: "\<not> startsWith (toLowerCase ''abnormal vata'') (toLowerCase ''vata'')"
    by code_simp
  have c: "wholeWordTest rejectingEngine (toLowerCase ''vata'') (toLowerCase ''abnormal vata'') = Some True"
    by code_simp
  show ?thesis
    using a b c
      service_scorer_differs_only_by_whole_word_tier [of "''vata''" "''pitta dosha''" rejectingEngine]
      service_scorer_differs_only_by_whole_word_tier [of "''vata''" "''abnormal vata''" rejectingEngine]
    by simp
qed

text \<open>
  The two scorers differ on the query \<^verbatim>\<open>vata\<close> and the text \<^verbatim>\<open>abnormal vata\<close>: the text
  holds the query as a whole word and not as a prefix.
\<close>

theorem scorers_equal_counterexample:
  "NamasteService_calculateRelevanceScore rejectingEngine ''vata'' ''abnormal vata'' = Inr (8 / 10)
   \<and> calculateRelevanceScore ''vata'' ''abnormal vata'' = 7 / 10"
  by code_simp

section \<open>Suggestions\<close>

text \<open>
  Claim C1, as amended. For every source code with an active entry and every limit,
  \<open>findSuggestedMappings\<close> returns at most \<open>limit\<close> suggestions, and the returned list is
  in ascending order of the target titles (under the collation of the database), not in
  order of the confidence scores.
\<close>

theorem findSuggestedMappings_limit_and_title_order:
  assumes "findActiveNamaste namasteCode db = Some n"
  shows "\<exists>suggestions.
           findSuggestedMappings confidence like collate namasteCode limit db = Inr suggestions
           \<and> length suggestions \<le> limit
           \<and> sorted (map (\<lambda>s. collate (icd11_title s)) suggestions)"
proof -
  let ?rows = "filter (\<lambda>e. list_ex (\<lambda>term. like (''%'' @ term @ ''%'') (title e))
                                      (searchTerms (display_name n))
                                  \<and> module e = ''tm2'' \<and> icd_status e = Active)
                         (icd11_codes db)"
  let ?sorted = "sort_key (\<lambda>e. collate (title e)) ?rows"
  have "sorted (map (\<lambda>e. collate (title e)) ?sorted)" by (rule sorted_sort_key)
  then have "sorted (take limit (map (\<lambda>e. collate (title e)) ?sorted))"
    by (rule sorted_wrt_take)
  then have "sorted (map (\<lambda>e. collate (title e)) (take limit ?sorted))"
    by (simp add: take_map)
  then show ?thesis using assms
    by (simp add: findSuggestedMappings_def Let_def comp_def)
qed

theorem findSuggestedMappings_limit_and_title_order_witness:
  "findActiveNamaste ''NAM001'' exampleDb \<noteq> None
   \<and> (\<exists>suggestions.
         findSuggestedMappings calculateMappingConfidence sqlLike binaryCollation ''NAM001'' 1 exampleDb
           = Inr suggestions
         \<and> length suggestions \<le> 1
         \<and> sorted (map (\<lambda>s. binaryCollation (icd11_title s)) suggestions))"
proof -
  obtain n where n: "findActiveNamaste ''NAM001'' exampleDb = Some n"
    by (simp add: findActiveNamaste_def exampleDb_def)
  show ?thesis
    using n findSuggestedMappings_limit_and_title_order
            [OF n, of calculateMappingConfidence sqlLike binaryCollation 1]
    by simp
qed

text \<open>
  The claim as stated has the list in descending order of the scores. For the source
  \<^verbatim>\<open>NAM001\<close> of the example store the suggestions come back with the scores 0.3 and 1.0,
  in this order: the title \<^verbatim>\<open>abnormal vata\<close> sorts before \<^verbatim>\<open>vata prakopa\<close>.
\<close>

theorem findSuggestedMappings_score_order_counterexample:
  "(case findSuggestedMappings calculateMappingConfidence sqlLike binaryCollation ''NAM001'' 5 exampleDb of
      Inl e \<Rightarrow> []
    | Inr suggestions \<Rightarrow> map sugg_confidence_score suggestions) = [3 / 10, 1]"
  by code_simp

section \<open>Translation\<close>

lemma mapResult_Inl: "mapResult f xs = Inl e \<Longrightarrow> \<exists>x \<in> set xs. f x = Inl e"
  by (induction xs) (auto split: sum.splits)

text \<open>
  Claim C5. \<open>translateCode\<close> returns the empty list when the code resolves to an active
  entry of the named system that has no active mapping; it raises the not-found error
  exactly when the code does not resolve to an active entry of the named system; and it
  raises the unsupported-system error exactly when the system identifier contains neither
  \<^verbatim>\<open>namaste\<close> nor \<^verbatim>\<open>icd\<close>. (An identifier containing \<^verbatim>\<open>namaste\<close> names the
  traditional-medicine system, any other one containing \<^verbatim>\<open>icd\<close> the classification.)
\<close>

theorem translateCode_outcomes:
  "(includesStr system ''namaste''
      \<and> find (\<lambda>n. code n = cd \<and> status n = Active) (namaste_codes db) \<noteq> None
      \<and> filter (\<lambda>m. namaste_code m = cd \<and> is_active m) (code_mappings db) = []
     \<longrightarrow> translateCode system cd targetSystem db = Inr [])
   \<and> (\<not> includesStr system ''namaste'' \<and> includesStr system ''icd''
      \<and> find (\<lambda>e. icd_id e = cd \<and> icd_status e = Active) (icd11_codes db) \<noteq> None
      \<and> filter (\<lambda>m. icd11_code m = cd \<and> is_active m) (code_mappings db) = []
     \<longrightarrow> translateCode system cd targetSystem db = Inr [])
   \<and> (translateCode system cd targetSystem db = Inl SourceCodeNotFound
      \<longleftrightarrow> (includesStr system ''namaste''
             \<and> find (\<lambda>n. code n = cd \<and> status n = Active) (namaste_codes db) = None)
          \<or> (\<not> includesStr system ''namaste'' \<and> includesStr system ''icd''
             \<and> find (\<lambda>e. icd_id e = cd \<and> icd_status e = Active) (icd11_codes db) = None))
   \<and> (translateCode system cd targetSystem db = Inl UnsupportedCodeSystem
      \<longleftrightarrow> \<not> includesStr system ''namaste'' \<and> \<not> includesStr system ''icd'')"
proof -
  have a: "translateCode system cd targetSystem db = Inr []"
    if "includesStr system ''namaste''"
      "find (\<lambda>n. code n = cd \<and> status n = Active) (namaste_codes db) \<noteq> None"
      "filter (\<lambda>m. namaste_code m = cd \<and> is_active m) (code_mappings db) = []"
    using that by (auto simp: translateCode_def)
  have b: "translateCode system cd targetSystem db = Inr []"
    if "\<not> includesStr system ''namaste''" "includesStr system ''icd''"
      "find (\<lambda>e. icd_id e = cd \<and> icd_status e = Active) (icd11_codes db) \<noteq> None"
      "filter (\<lambda>m. icd11_code m = cd \<and> is_active m) (code_mappings db) = []"
    using that by (auto simp: translateCode_def)
  have c: "translateCode system cd targetSystem db = Inl SourceCodeNotFound
      \<longleftrightarrow> (includesStr system ''namaste''
             \<and> find (\<lambda>n. code n = cd \<and> status n = Active) (namaste_codes db) = None)
          \<or> (\<not> includesStr system ''namaste'' \<and> includesStr system ''icd''
             \<and> find (\<lambda>e. icd_id e = cd \<and> icd_status e = Active) (icd11_codes db) = None)"
    by (auto simp: translateCode_def split: option.splits dest!: mapResult_Inl)
  have d: "translateCode system cd targetSystem db = Inl UnsupportedCodeSystem
      \<longleftrightarrow> \<not> includesStr system ''namaste'' \<and> \<not> includesStr system ''icd''"
    by (auto simp: translateCode_def split: option.splits dest!: mapResult_Inl)
  from a b c d show ?thesis by blast
qed

theorem translateCode_outcomes_witness:
  "translateCode ''http://terminology.hl7.org/CodeSystem/namaste-ayurveda'' ''NAM001'' None exampleDb = Inr []
   \<and> translateCode ''http://id.who.int/icd/entity'' ''1435254667'' None exampleDb = Inr []
   \<and> translateCode ''http://terminology.hl7.org/CodeSystem/namaste-ayurveda'' ''NAM999'' None exampleDb
       = Inl SourceCodeNotFound
   \<and> translateCode ''http://snomed.info/sct'' ''NAM001'' None exampleDb = Inl UnsupportedCodeSystem"
proof -
  let ?nam = "''http://terminology.hl7.org/CodeSystem/namaste-ayurveda''"
  let ?icd = "''http://id.who.int/icd/entity''"
  let ?sct = "''http://snomed.info/sct''"
  have n: "includesStr ?nam ''namaste''" by code_simp
  have i: "\<not> includesStr ?icd ''namaste'' \<and> includesStr ?icd ''icd''" by code_simp
  have s: "\<not> includesStr ?sct ''namaste'' \<and> \<not> includesStr ?sct ''icd''" by code_simp
  have f1: "find (\<lambda>n. code n = ''NAM001'' \<and> status n = Active) (namaste_codes exampleDb) \<noteq> None"
    by code_simp
  have f2: "find (\<lambda>e. icd_id e = ''1435254667'' \<and> icd_status e = Active) (icd11_codes exampleDb) \<noteq> None"
    by code_simp
  have f3: "find (\<lambda>n. code n = ''NAM999'' \<and> status n = Active) (namaste_codes exampleDb) = None"
    by code_simp
  have m: "code_mappings exampleDb = []" by (simp add: exampleDb_def)
  show ?thesis
    using n i s f1 f2 f3 m
      translateCode_outcomes [of ?nam "''NAM001''" exampleDb None]
      translateCode_outcomes [of ?icd "''1435254667''" exampleDb None]
      translateCode_outcomes [of ?nam "''NAM999''" exampleDb None]
      translateCode_outcomes [of ?sct "''NAM001''" exampleDb None]
    by simp
qed

section \<open>The validator\<close>


lemma validateStep_broken:
  assumes "referenceBroken db m"
  shows "invalid (validateStep confidence db r m) = invalid r + 1"
    and "valid (validateStep confidence db r m) = valid r"
    and "\<exists>i. referenceIssue m i \<and> issues (validateStep confidence db r m) = issues r @ [i]"
  using assms
  by (auto simp: validateStep_def referenceBroken_def referenceIssue_def split: option.splits)

lemma validateStep_sound:
  assumes "\<not> referenceBroken db m"
  shows "invalid (validateStep confidence db r m) = invalid r"
    and "valid (validateStep confidence db r m) = valid r + 1"
    and "\<exists>js. issues (validateStep confidence db r m) = issues r @ js"
  using assms
  by (auto simp: validateStep_def referenceBroken_def Let_def split: option.splits)

lemma validateStep_issues_grow:
  "\<exists>js. issues (validateStep confidence db r m) = issues r @ js"
  using validateStep_broken(3) [of db m confidence r] validateStep_sound(3) [of db m confidence r]
  by (cases "referenceBroken db m") auto

lemma validate_fold:
  "invalid (foldl (validateStep confidence db) r ms) = invalid r + length (filter (referenceBroken db) ms)
   \<and> valid (foldl (validateStep confidence db) r ms)
       = valid r + length (filter (\<lambda>m. \<not> referenceBroken db m) ms)
   \<and> set (issues r) \<subseteq> set (issues (foldl (validateStep confidence db) r ms))
   \<and> (\<forall>m \<in> set ms. referenceBroken db m \<longrightarrow>
         (\<exists>i \<in> set (issues (foldl (validateStep confidence db) r ms)). referenceIssue m i))"
proof (induction ms arbitrary: r)
  case Nil
  then show ?case by simp
next
  case (Cons m ms)
  let ?r = "validateStep confidence db r m"
  note IH = Cons.IH [of ?r]
  obtain js where grow: "issues ?r = issues r @ js"
    using validateStep_issues_grow by blast
  show ?case
  proof (cases "referenceBroken db m")
    case True
    obtain i where i: "referenceIssue m i" "issues ?r = issues r @ [i]"
      using validateStep_broken(3) [OF True] by blast
    then have "i \<in> set (issues (foldl (validateStep confidence db) ?r ms))"
      using IH by auto
    with i(1) have "\<exists>i \<in> set (issues (foldl (validateStep confidence db) ?r ms)). referenceIssue m i"
      by blast
    then show ?thesis
      using IH True grow validateStep_broken(1,2) [OF True, of confidence r] by auto
  next
    case False
    then show ?thesis
      using IH grow validateStep_sound(1,2) [OF False, of confidence r] by auto
  qed
qed

text \<open>
  Claim C7. The bulk validation counts every active mapping whose source or target
  reference is missing or inactive as invalid and records an issue naming it, and it
  hands the store back unchanged: the flag \<open>is_active\<close> and every other stored field of
  every mapping are as before.
\<close>

theorem validateMappings_reports_and_keeps_store:
  "snd (validateMappings confidence db) = db
   \<and> invalid (fst (validateMappings confidence db))
       = length (filter (\<lambda>m. is_active m \<and> referenceBroken db m) (code_mappings db))
   \<and> (\<forall>m \<in> set (code_mappings db). is_active m \<and> referenceBroken db m \<longrightarrow>
         (\<exists>i \<in> set (issues (fst (validateMappings confidence db))). referenceIssue m i))"
proof -
  let ?ms = "filter is_active (code_mappings db)"
  let ?r0 = "\<lparr>valid = 0, invalid = 0, issues = []\<rparr>"
  have f: "filter (referenceBroken db) ?ms
             = filter (\<lambda>m. is_active m \<and> referenceBroken db m) (code_mappings db)"
    by (simp add: conj_commute)
  show ?thesis
    using validate_fold [of confidence db ?r0 ?ms] f
    by (simp add: validateMappings_def Let_def)
qed


theorem validateMappings_reports_and_keeps_store_witness:
  "(\<exists>m \<in> set (code_mappings mappedDb). is_active m \<and> referenceBroken mappedDb m \<and> mapping_id m = 2)
   \<and> snd (validateMappings calculateMappingConfidence mappedDb) = mappedDb
   \<and> invalid (fst (validateMappings calculateMappingConfidence mappedDb)) = 1
   \<and> Icd11Issue 2 ''1435254668'' \<in> set (issues (fst (validateMappings calculateMappingConfidence mappedDb)))"
proof -
  have a: "\<exists>m \<in> set (code_mappings mappedDb). is_active m \<and> referenceBroken mappedDb m \<and> mapping_id m = 2"
    by code_simp
  have b: "length (filter (\<lambda>m. is_active m \<and> referenceBroken mappedDb m) (code_mappings mappedDb)) = 1"
    by code_simp
  have c: "Icd11Issue 2 ''1435254668'' \<in> set (issues (fst (validateMappings calculateMappingConfidence mappedDb)))"
    by code_simp
  show ?thesis
    using a b c validateMappings_reports_and_keeps_store [of calculateMappingConfidence mappedDb]
    by simp
qed

section \<open>Creating a mapping twice\<close>


text \<open>
  The controller answers a pair of codes that already has an active mapping with the
  conflict response, and leaves the store as it is.
\<close>

lemma MappingController_createMapping_conflict:
  assumes "findActiveNamaste namasteCode db = Some n"
    and "findActiveIcd11 icd11Code db = Some e"
    and "findActiveMapping namasteCode (icd_id e) db = Some existing"
    and "namasteCode \<noteq> []" and "icd11Code \<noteq> []"
    and "body_namaste_code req = Some namasteCode" and "body_icd11_code req = Some icd11Code"
  shows "MappingController_createMapping confidence now req db
           = (Conflict_409 ''Mapping already exists between these codes'', db)"
  using assms by (simp add: MappingController_createMapping_def falsyString_def)

text \<open>
  Claim C3, at the input on which the code departs from it. In the store \<open>mappedDb\<close> the
  source \<^verbatim>\<open>NAM001\<close> and the target \<^verbatim>\<open>1435254666\<close> are active and have an active mapping.
  The claim has the batch path return that mapping and count a skip. The batch creator
  throws the \<^verbatim>\<open>TypeError\<close> of its filter instead and counts an error; no skip is counted and
  no mapping is returned. The interactive path answers the same codes with the conflict
  response, as the claim says.
\<close>

theorem duplicate_mapping_batch_throws:
  "findActiveNamaste ''NAM001'' mappedDb \<noteq> None
   \<and> findActiveIcd11 ''1435254666'' mappedDb \<noteq> None
   \<and> findActiveMapping ''NAM001'' ''1435254666'' mappedDb \<noteq> None
   \<and> createMapping calculateMappingConfidence ''NAM001'' ''1435254666'' Equivalent None None
        (mappedDb, resetStats)
       = (Inl TypeError, mappedDb, \<lparr>processed = 1, created = 0, skipped = 0, errors = 1\<rparr>)
   \<and> MappingController_createMapping calculateMappingConfidence 0
        \<lparr>body_namaste_code = Some ''NAM001'', body_icd11_code = Some ''1435254666'',
         body_mapping_type = None, body_confidence_score = None, body_notes = None, user_id = 7\<rparr>
        mappedDb
       = (Conflict_409 ''Mapping already exists between these codes'', mappedDb)"
  by code_simp

section \<open>An explicit confidence score\<close>

lemma orElse_nonzero: "c \<noteq> 0 \<Longrightarrow> orElse (Some c) computed = c"
  by (simp add: orElse_def)

lemma orElse_zero: "orElse (Some 0) computed = computed"
  by (simp add: orElse_def)

text \<open>
  Whatever the confidence helper is: when the controller creates a mapping for a request
  with the explicit score 0, the row it stores carries the helper's score (converted to
  the column type), not 0.
\<close>

lemma MappingController_createMapping_zero_confidence:
  assumes "findActiveNamaste namasteCode db = Some n"
    and "findActiveIcd11 icd11Code db = Some e"
    and "body_namaste_code req = Some namasteCode" and "body_icd11_code req = Some icd11Code"
    and "body_confidence_score req = Some 0"
    and "MappingController_createMapping confidence now req db = (Created_201 r, db')"
  shows "\<exists>row. code_mappings db' = code_mappings db @ [row]
           \<and> confidence_score row = toDecimal32 (confidence (display_name n) (title e))"
  using assms
  by (auto simp: MappingController_createMapping_def CodeMapping_create_def orElse_zero Let_def
        split: option.splits if_splits)

text \<open>
  Claim C6, at the input on which the code departs from it. The source \<^verbatim>\<open>NAM001\<close> and
  the target \<^verbatim>\<open>1435254666\<close> are active and not yet mapped, and the request to the
  controller supplies the confidence score 0. The controller stores the score of the
  helper, here 1, and not the supplied 0.
\<close>

theorem explicit_zero_confidence_not_kept:
  "map confidence_score
     (code_mappings (snd (MappingController_createMapping calculateMappingConfidence 0
                            \<lparr>body_namaste_code = Some ''NAM001'',
                             body_icd11_code = Some ''1435254666'',
                             body_mapping_type = None, body_confidence_score = Some 0,
                             body_notes = None, user_id = 7\<rparr>
                            exampleDb))) = [1]"
  by code_simp

text \<open>An explicit score other than 0 is the one stored, converted to the column type.\<close>

lemma MappingController_createMapping_explicit_confidence:
  assumes "c \<noteq> 0"
    and "body_confidence_score req = Some c"
    and "MappingController_createMapping confidence now req db = (Created_201 r, db')"
  shows "\<exists>row. code_mappings db' = code_mappings db @ [row] \<and> confidence_score row = toDecimal32 c"
  using assms
  by (auto simp: MappingController_createMapping_def CodeMapping_create_def orElse_nonzero Let_def
        split: option.splits if_splits)

section \<open>Automatic mapping\<close>










section \<open>Further checks\<close>

text \<open>The single-record validation only reads, and flags a mapping with a broken reference.\<close>

lemma validateMapping_keeps_store: "snd (validateMapping confidence mappingId db) = db"
  by (simp add: validateMapping_def Let_def split: option.splits)

lemma validateMapping_flags_broken_reference:
  assumes "find (\<lambda>m. mapping_id m = mappingId) (code_mappings db) = Some m"
    and "referenceBroken db m"
  shows "\<exists>v. fst (validateMapping confidence mappingId db) = Inr v \<and> \<not> is_valid v \<and> val_issues v \<noteq> []"
  using assms
  by (auto simp: validateMapping_def referenceBroken_def Let_def split: option.splits)

text \<open>
  A batch that names the same pair of active codes twice counts two errors, and creates
  and skips nothing.
\<close>

lemma createMappingsFromArray_same_item_twice:
  "createMappingsFromArray calculateMappingConfidence
     [\<lparr>item_namaste_code = ''NAM001'', item_icd11_code = ''1435254666'',
       item_mapping_type = None, item_confidence_score = Some (95 / 100), item_notes = None\<rparr>,
      \<lparr>item_namaste_code = ''NAM001'', item_icd11_code = ''1435254666'',
       item_mapping_type = None, item_confidence_score = Some (95 / 100), item_notes = None\<rparr>]
     (exampleDb, resetStats)
   = (exampleDb, \<lparr>processed = 2, created = 0, skipped = 0, errors = 2\<rparr>)"
  by code_simp

end
